theory Spec2Isabelle
  imports
    Complex_Main
    "HOL-Library.Multiset"
    "HOL-Library.Sublist"
    "HOL-Library.Char_ord"
    "HOL-Library.List_Lexorder"
begin

section \<open>Python values and helpers shared by the scripts\<close>

text \<open>
  A Python float is a finite number, an infinity or NaN (\<open>json.load\<close> and
  \<open>argparse\<close> with \<open>type=float\<close> accept all of them). Its comparisons are those
  of IEEE 754: every comparison with NaN is false. Its arithmetic rounds, so the
  operations are not taken from the real numbers: they are parameters of the model (a
  record \<open>float_ops\<close>), and what is proved holds for every choice of them, the rounding
  operations of the machine included.
  Python \<open>int\<close>s are \<^typ>\<open>int\<close> or \<^typ>\<open>nat\<close> (counters that start at 0 and only grow).
  Strings are \<^typ>\<open>string\<close>, ordered by \<open>sorted()\<close> as lists of characters,
  lexicographically by character code.
\<close>

datatype pyfloat = NaN | NInf | Fin real | PInf

definition fle :: "pyfloat \<Rightarrow> pyfloat \<Rightarrow> bool" where
  \<comment> \<open>\<open>a <= b\<close>\<close>
  "fle a b =
     (a \<noteq> NaN \<and> b \<noteq> NaN \<and>
      (a = NInf \<or> b = PInf \<or> (case (a, b) of (Fin x, Fin y) \<Rightarrow> x \<le> y | _ \<Rightarrow> False)))"

definition fge :: "pyfloat \<Rightarrow> pyfloat \<Rightarrow> bool" where
  \<comment> \<open>\<open>a >= b\<close>\<close>
  "fge a b = fle b a"

definition flt :: "pyfloat \<Rightarrow> pyfloat \<Rightarrow> bool" where
  \<comment> \<open>\<open>a < b\<close>\<close>
  "flt a b = (fle a b \<and> \<not> fle b a)"

definition fgt :: "pyfloat \<Rightarrow> pyfloat \<Rightarrow> bool" where
  \<comment> \<open>\<open>a > b\<close>\<close>
  "fgt a b = flt b a"

record float_ops =
  f_add :: "pyfloat \<Rightarrow> pyfloat \<Rightarrow> pyfloat"    \<comment> \<open>\<open>a + b\<close>\<close>
  f_mul :: "pyfloat \<Rightarrow> pyfloat \<Rightarrow> pyfloat"    \<comment> \<open>\<open>a * b\<close>\<close>
  f_div :: "pyfloat \<Rightarrow> pyfloat \<Rightarrow> pyfloat"    \<comment> \<open>\<open>a / b\<close>, for a divisor that is not zero\<close>
  f_of_nat :: "nat \<Rightarrow> pyfloat"                \<comment> \<open>the float of a count\<close>
  f_mean :: "pyfloat list \<Rightarrow> pyfloat"          \<comment> \<open>\<open>np.mean\<close> of a non-empty list\<close>

datatype error =
    LoadError       \<comment> \<open>\<open>open()\<close> or \<open>json.load\<close> of a JSON file raises\<close>
  | LibraryError    \<comment> \<open>a GDAL or numpy call raises, or a method is called on \<open>None\<close>\<close>
  | ValueError      \<comment> \<open>\<open>max()\<close> or \<open>min()\<close> of an empty sequence\<close>
  | ClusteringError \<comment> \<open>the clustering library rejects its parameters\<close>

definition ebind :: "error + 'a \<Rightarrow> ('a \<Rightarrow> error + 'b) \<Rightarrow> error + 'b" where
  \<comment> \<open>the next statement runs when the one before it did not raise\<close>
  "ebind r f = (case r of Inl e \<Rightarrow> Inl e | Inr x \<Rightarrow> f x)"

type_synonym point = "real \<times> real"

text \<open>\<open>s.replace(old, new)\<close> for a non-empty \<open>old\<close>: every occurrence, leftmost first.\<close>

function py_replace :: "string \<Rightarrow> string \<Rightarrow> string \<Rightarrow> string" where
  "py_replace old new [] = []"
| "py_replace old new (c # cs) =
     (if old \<noteq> [] \<and> prefix old (c # cs)
      then new @ py_replace old new (drop (length old) (c # cs))
      else c # py_replace old new cs)"
  by pat_completeness auto
termination
  by (relation "measure (\<lambda>(old, new, s). length s)") (auto simp: neq_Nil_conv)

declare py_replace.simps [simp del]

definition endswith :: "string \<Rightarrow> string \<Rightarrow> bool" where
  "endswith s suf = suffix suf s"

text \<open>\<open>sorted(xs, key=k, reverse=True)\<close> and \<open>xs.sort(key=k, reverse=True)\<close>: the list is
  reversed, sorted by a stable sort, and reversed again.\<close>

definition sorted_reverse :: "('a \<Rightarrow> 'k::linorder) \<Rightarrow> 'a list \<Rightarrow> 'a list" where
  "sorted_reverse k xs = rev (sort_key k (rev xs))"

text \<open>\<open>str(n)\<close> of a Python int, as the f-strings render it.\<close>

definition digit_char :: "nat \<Rightarrow> char" where
  "digit_char d = ''0123456789'' ! d"

function str_nat :: "nat \<Rightarrow> string" where
  "str_nat n = (if n < 10 then [digit_char n] else str_nat (n div 10) @ [digit_char (n mod 10)])"
  by pat_completeness auto
termination
  by (relation "measure id") auto

declare str_nat.simps [simp del]

definition str_int :: "int \<Rightarrow> string" where
  "str_int i = (if i < 0 then CHR ''-'' # str_nat (nat (- i)) else str_nat (nat i))"

section \<open>The input directory\<close>

text \<open>
  The keys of a metadata or STAC JSON document that the scripts read. A key that is
  absent is \<open>None\<close>; a key that is present holds a value of the type the scripts use it at (a
  number is a float).
\<close>

record props =
  p_cloud_cover :: "pyfloat option"
  p_acquired :: "string option"
  p_clear_percent :: "pyfloat option"
  p_gsd :: "pyfloat option"
  p_satellite_id :: "string option"
  p_sun_elevation :: "pyfloat option"
  p_sun_azimuth :: "pyfloat option"
  p_view_angle :: "pyfloat option"

record geom =
  g_coordinates :: "point list list option"

record json_doc =
  j_properties :: "props option"   \<comment> \<open>the object under the key \<open>properties\<close>\<close>
  j_top :: props                   \<comment> \<open>the top-level keys, read as properties\<close>
  j_geometry :: "geom option"      \<comment> \<open>the object under the key \<open>geometry\<close>\<close>

record fs =
  fs_listdir :: "string list"               \<comment> \<open>\<open>os.listdir(input_dir)\<close>\<close>
  fs_exists :: "string \<Rightarrow> bool"              \<comment> \<open>\<open>os.path.exists\<close> of a name in the directory\<close>
  fs_json :: "string \<Rightarrow> json_doc option"     \<comment> \<open>\<open>open\<close> and \<open>json.load\<close>; \<open>None\<close>: it raises\<close>

definition get_props :: "json_doc \<Rightarrow> props" where
  \<comment> \<open>\<open>data.get('properties', data)\<close>\<close>
  "get_props data = (case j_properties data of Some p \<Rightarrow> p | None \<Rightarrow> j_top data)"

definition get_coords :: "json_doc \<Rightarrow> json_doc \<Rightarrow> point list list" where
  \<comment> \<open>\<open>stac.get('geometry', data.get('geometry', {})).get('coordinates', [[]])\<close>\<close>
  "get_coords stac data =
     (let geom = (case j_geometry stac of
                    Some g \<Rightarrow> g
                  | None \<Rightarrow> (case j_geometry data of
                               Some g \<Rightarrow> g
                             | None \<Rightarrow> \<lparr>g_coordinates = None\<rparr>))
      in case g_coordinates geom of Some c \<Rightarrow> c | None \<Rightarrow> [[]])"

definition coords_truthy :: "point list list \<Rightarrow> bool" where
  \<comment> \<open>\<open>coords and coords[0]\<close>\<close>
  "coords_truthy coords = (case coords of [] \<Rightarrow> False | r # _ \<Rightarrow> r \<noteq> [])"

definition metadata_suffix :: string where
  "metadata_suffix = ''_metadata.json''"

definition tif_suffix :: string where
  "tif_suffix = ''_3B_AnalyticMS_SR_file_format.tif''"

definition udm2_suffix :: string where
  "udm2_suffix = ''_3B_udm2_file_format.tif''"

section \<open>select_scenes_flood_aware.py\<close>

subsection \<open>detect_water_extent\<close>

record water_info =
  wi_water_pct :: pyfloat
  wi_clear_pct :: pyfloat
  wi_water_pixels :: nat
  wi_clear_pixels :: nat
  wi_total_pixels :: nat

definition default_result :: water_info where
  "default_result = \<lparr>wi_water_pct = Fin 0, wi_clear_pct = Fin 0,
                     wi_water_pixels = 0, wi_clear_pixels = 0, wi_total_pixels = 0\<rparr>"

text \<open>
  GDAL and numpy are libraries: their calls are parameters of the model, over abstract
  types of datasets, bands and arrays (a band or an array may be \<open>None\<close>). Each call
  gives a value or raises. What \<open>gdal.Open\<close> gives is \<open>None\<close>, an exception, or a dataset.
\<close>

datatype 'ds gdal_open = OpenNone | OpenRaises | Opened 'ds

record ('ds, 'band, 'arr) raster_lib =
  rl_open :: "string \<Rightarrow> 'ds gdal_open"          \<comment> \<open>\<open>gdal.Open(path, gdal.GA_ReadOnly)\<close>\<close>
  rl_band :: "'ds \<Rightarrow> nat \<Rightarrow> error + 'band"       \<comment> \<open>\<open>ds.GetRasterBand(n)\<close>\<close>
  rl_read :: "'band \<Rightarrow> error + 'arr"            \<comment> \<open>\<open>band.ReadAsArray()\<close>\<close>
  rl_size :: "'arr \<Rightarrow> error + nat"              \<comment> \<open>\<open>nir_data.size\<close>\<close>
  rl_clear :: "'arr \<Rightarrow> 'arr \<Rightarrow> 'arr \<Rightarrow> error + 'arr"
     \<comment> \<open>\<open>(clear_mask == 1) & (cloud_mask == 0) & (nir_data > 0)\<close>\<close>
  rl_water :: "'arr \<Rightarrow> 'arr \<Rightarrow> int \<Rightarrow> error + 'arr"
     \<comment> \<open>\<open>clear_pixels_mask & (nir_data < nir_threshold)\<close>\<close>
  rl_sum :: "'arr \<Rightarrow> error + nat"               \<comment> \<open>\<open>np.sum(mask)\<close>\<close>

text \<open>Lines 100 to 109: the percentages and the counts stored in \<open>result\<close>.\<close>

definition store_counts :: "float_ops \<Rightarrow> water_info \<Rightarrow> nat \<Rightarrow> nat \<Rightarrow> nat \<Rightarrow> water_info" where
  "store_counts ops result total_pixels clear_pixels water_pixels =
     (let r1 = (if total_pixels > 0
                then result\<lparr>wi_clear_pct :=
                       f_mul ops (f_div ops (f_of_nat ops clear_pixels) (f_of_nat ops total_pixels))
                         (Fin 100)\<rparr>
                else result);
          r2 = (if clear_pixels > 0
                then r1\<lparr>wi_water_pct :=
                       f_mul ops (f_div ops (f_of_nat ops water_pixels) (f_of_nat ops clear_pixels))
                         (Fin 100)\<rparr>
                else r1)
      in r2\<lparr>wi_water_pixels := water_pixels,
             wi_clear_pixels := clear_pixels,
             wi_total_pixels := total_pixels\<rparr>)"

text \<open>The body of the \<open>try\<close> block, statement by statement: \<open>Inl\<close> is an exception
  raised inside it, \<open>Inr\<close> the value of \<open>result\<close> when the block ends or returns.\<close>

definition try_block ::
  "float_ops \<Rightarrow> ('ds, 'band, 'arr) raster_lib \<Rightarrow> string \<Rightarrow> string \<Rightarrow> int \<Rightarrow> water_info
     \<Rightarrow> error + water_info" where
  "try_block ops lib tif_path udm2_path nir_threshold result =
     (case rl_open lib tif_path of
        OpenRaises \<Rightarrow> Inl LibraryError
      | OpenNone \<Rightarrow> Inr result
      | Opened ds \<Rightarrow>
          ebind (rl_band lib ds 4) (\<lambda>nir_band.
          ebind (rl_read lib nir_band) (\<lambda>nir_data.
            (case rl_open lib udm2_path of
               OpenRaises \<Rightarrow> Inl LibraryError
             | OpenNone \<Rightarrow> Inr result
             | Opened udm2_ds \<Rightarrow>
                 ebind (rl_band lib udm2_ds 1) (\<lambda>clear_band.
                 ebind (rl_band lib udm2_ds 6) (\<lambda>cloud_band.
                 ebind (rl_read lib clear_band) (\<lambda>clear_mask.
                 ebind (rl_read lib cloud_band) (\<lambda>cloud_mask.
                 ebind (rl_size lib nir_data) (\<lambda>total_pixels.
                 ebind (rl_clear lib clear_mask cloud_mask nir_data) (\<lambda>clear_pixels_mask.
                 ebind (rl_sum lib clear_pixels_mask) (\<lambda>clear_pixels.
                 ebind (rl_water lib clear_pixels_mask nir_data nir_threshold) (\<lambda>water_pixels_mask.
                 ebind (rl_sum lib water_pixels_mask) (\<lambda>water_pixels.
                   Inr (store_counts ops result total_pixels clear_pixels
                          water_pixels))))))))))))))"

text \<open>\<open>Inl\<close> would be an exception that leaves the function. The \<open>except Exception\<close>
  clause prints and falls through to \<open>return result\<close>; nothing has been stored in
  \<open>result\<close> when an exception can occur.\<close>

definition detect_water_extent ::
  "float_ops \<Rightarrow> ('ds, 'band, 'arr) raster_lib \<Rightarrow> fs \<Rightarrow> string \<Rightarrow> string \<Rightarrow> int
     \<Rightarrow> error + water_info" where
  "detect_water_extent ops lib fs tif_path udm2_path nir_threshold =
     (let result = default_result in
      if \<not> fs_exists fs tif_path then Inr result
      else if \<not> fs_exists fs udm2_path then Inr result
      else (case try_block ops lib tif_path udm2_path nir_threshold result of
              Inl e \<Rightarrow> Inr result
            | Inr r \<Rightarrow> Inr r))"

subsection \<open>select_scenes_flood_aware\<close>

record flood_stats =
  total_scenes :: nat
  accepted :: nat
  rejected :: nat
  low_cloud_accept :: nat
  high_cloud_water_accept :: nat
  high_cloud_no_water_reject :: nat

text \<open>One printed status (lines 212 to 215): the verdict, the scene, the values shown.\<close>

record status_line =
  sl_selected :: bool
  sl_base :: string
  sl_cloud :: pyfloat
  sl_water :: pyfloat
  sl_clear :: pyfloat
  sl_reason :: string

text \<open>One shape of the output shapefile with its attribute row.\<close>

record flood_record =
  fr_polygon :: "point list"
  fr_scene_id :: string
  fr_acquired :: string
  fr_cloud_cov :: pyfloat
  fr_clear_pct :: pyfloat
  fr_water_pct :: pyfloat
  fr_gsd :: pyfloat
  fr_satellite :: string
  fr_sun_elev :: pyfloat
  fr_sun_az :: pyfloat
  fr_view_angle :: pyfloat
  fr_tif_file :: string
  fr_selection :: string

record flood_state =
  st_stats :: flood_stats
  st_shapes :: "flood_record list"
  st_printed :: "status_line list"

definition opt_default :: "'a option \<Rightarrow> 'a \<Rightarrow> 'a" where
  \<comment> \<open>\<open>d.get(key, default)\<close> on the value under \<open>key\<close>\<close>
  "opt_default v d = (case v of Some x \<Rightarrow> x | None \<Rightarrow> d)"

text \<open>Lines 192 to 209: the verdict, its reason and the updated statistics.\<close>

definition selection ::
  "pyfloat \<Rightarrow> pyfloat \<Rightarrow> pyfloat \<Rightarrow> pyfloat \<Rightarrow> flood_stats \<Rightarrow> bool \<times> string \<times> flood_stats" where
  "selection cloud_cover cloud_max water_pct min_water_pct stats =
     (if fle cloud_cover cloud_max
      then (True, ''low_cloud'', stats\<lparr>low_cloud_accept := low_cloud_accept stats + 1\<rparr>)
      else if fge water_pct min_water_pct
      then (True, ''high_cloud_water'',
            stats\<lparr>high_cloud_water_accept := high_cloud_water_accept stats + 1\<rparr>)
      else (False, ''high_cloud_no_water'',
            stats\<lparr>high_cloud_no_water_reject := high_cloud_no_water_reject stats + 1\<rparr>))"

text \<open>One iteration of the loop of line 171. The second component is the exception that
  leaves the loop, if any; the state holds what the iteration did before it.\<close>

definition flood_step ::
  "float_ops \<Rightarrow> ('ds, 'band, 'arr) raster_lib \<Rightarrow> fs \<Rightarrow> pyfloat \<Rightarrow> int \<Rightarrow> pyfloat \<Rightarrow> string
     \<Rightarrow> flood_state \<Rightarrow> flood_state \<times> error option" where
  "flood_step ops lib fs cloud_max nir_threshold min_water_pct f st =
     (let stats1 = (st_stats st)\<lparr>total_scenes := total_scenes (st_stats st) + 1\<rparr> in
      case fs_json fs f of
        None \<Rightarrow> (st\<lparr>st_stats := stats1\<rparr>, Some LoadError)
      | Some data \<Rightarrow>
         (let props = get_props data;
              cloud_cover = f_mul ops (opt_default (p_cloud_cover props) (Fin 1)) (Fin 100);
              base = py_replace metadata_suffix [] f;
              stac_file = base @ ''.json'';
              tif_file = base @ tif_suffix;
              udm2_file = base @ udm2_suffix
          in case detect_water_extent ops lib fs tif_file udm2_file nir_threshold of
               Inl e \<Rightarrow> (st\<lparr>st_stats := stats1\<rparr>, Some e)
             | Inr water_info \<Rightarrow>
                (case selection cloud_cover cloud_max (wi_water_pct water_info) min_water_pct stats1 of
                   (selected, selection_reason, stats2) \<Rightarrow>
                    (let printed = st_printed st @
                           [\<lparr>sl_selected = selected, sl_base = base, sl_cloud = cloud_cover,
                             sl_water = wi_water_pct water_info,
                             sl_clear = wi_clear_pct water_info,
                             sl_reason = selection_reason\<rparr>]
                     in if selected then
                          (let stats3 = stats2\<lparr>accepted := accepted stats2 + 1\<rparr>;
                               st3 = st\<lparr>st_stats := stats3, st_printed := printed\<rparr>
                           in if fs_exists fs stac_file then
                                (case fs_json fs stac_file of
                                   None \<Rightarrow> (st3, Some LoadError)
                                 | Some stac \<Rightarrow>
                                    (let coords = get_coords stac data in
                                     if coords_truthy coords then
                                       (st3\<lparr>st_shapes := st_shapes st3 @
                                          [\<lparr>fr_polygon = hd coords,
                                            fr_scene_id = base,
                                            fr_acquired = opt_default (p_acquired props) [],
                                            fr_cloud_cov = cloud_cover,
                                            fr_clear_pct = wi_clear_pct water_info,
                                            fr_water_pct = wi_water_pct water_info,
                                            fr_gsd = opt_default (p_gsd props) (Fin 3),
                                            fr_satellite = opt_default (p_satellite_id props) [],
                                            fr_sun_elev = opt_default (p_sun_elevation props) (Fin 0),
                                            fr_sun_az = opt_default (p_sun_azimuth props) (Fin 0),
                                            fr_view_angle = opt_default (p_view_angle props) (Fin 0),
                                            fr_tif_file = base @ tif_suffix,
                                            fr_selection = selection_reason\<rparr>]\<rparr>, None)
                                     else (st3, None)))
                              else (st3, None))
                        else (st\<lparr>st_stats := stats2\<lparr>rejected := rejected stats2 + 1\<rparr>,
                                 st_printed := printed\<rparr>, None)))))"

fun flood_loop ::
  "float_ops \<Rightarrow> ('ds, 'band, 'arr) raster_lib \<Rightarrow> fs \<Rightarrow> pyfloat \<Rightarrow> int \<Rightarrow> pyfloat \<Rightarrow> string list
     \<Rightarrow> flood_state \<Rightarrow> flood_state \<times> error option" where
  "flood_loop ops lib fs cloud_max nir_threshold min_water_pct [] st = (st, None)"
| "flood_loop ops lib fs cloud_max nir_threshold min_water_pct (f # files) st =
     (case flood_step ops lib fs cloud_max nir_threshold min_water_pct f st of
        (st', Some e) \<Rightarrow> (st', Some e)
      | (st', None) \<Rightarrow> flood_loop ops lib fs cloud_max nir_threshold min_water_pct files st')"

definition initial_stats :: flood_stats where
  "initial_stats = \<lparr>total_scenes = 0, accepted = 0, rejected = 0, low_cloud_accept = 0,
                     high_cloud_water_accept = 0, high_cloud_no_water_reject = 0\<rparr>"

text \<open>The function returns \<open>st_stats\<close> of the final state when no exception left the loop;
  \<open>st_shapes\<close> is the shapefile it wrote and \<open>st_printed\<close> what it printed per scene.\<close>

definition select_scenes_flood_aware ::
  "float_ops \<Rightarrow> ('ds, 'band, 'arr) raster_lib \<Rightarrow> fs \<Rightarrow> pyfloat \<Rightarrow> int \<Rightarrow> pyfloat
     \<Rightarrow> flood_state \<times> error option" where
  "select_scenes_flood_aware ops lib fs cloud_max nir_threshold min_water_pct =
     (let metadata_files = sort (filter (\<lambda>f. endswith f metadata_suffix) (fs_listdir fs))
      in flood_loop ops lib fs cloud_max nir_threshold min_water_pct metadata_files
           \<lparr>st_stats = initial_stats, st_shapes = [], st_printed = []\<rparr>)"

section \<open>select_scenes_to_shp.py\<close>






section \<open>mosaic_by_geojson.py\<close>

text \<open>A scene as \<open>read_shapefile_scenes\<close> builds it. The Shapely polygon is of an
  abstract type \<open>'p\<close>; the geometry library's \<open>intersects\<close> is a parameter. The cloud
  cover and the water percentage are the sort key and the numbers printed: they are read
  from numeric fields of the shapefile and taken to be finite, so they are reals.\<close>

record 'p scene =
  scene_id :: string
  tif_file :: string
  cloud_cov :: real
  water_pct :: real
  centroid :: "pyfloat \<times> pyfloat"
  bbox_size :: "pyfloat \<times> pyfloat"
  polygon :: 'p
  geometry :: "point list"

subsection \<open>filter_scenes_by_boundary\<close>

fun filter_loop :: "('p \<Rightarrow> 'b \<Rightarrow> bool) \<Rightarrow> 'b \<Rightarrow> 'p scene list \<Rightarrow> 'p scene list \<Rightarrow> 'p scene list" where
  "filter_loop intersects boundary [] filtered = filtered"
| "filter_loop intersects boundary (scene # scenes) filtered =
     filter_loop intersects boundary scenes
       (if intersects (polygon scene) boundary then filtered @ [scene] else filtered)"

definition filter_scenes_by_boundary ::
  "('p \<Rightarrow> 'b \<Rightarrow> bool) \<Rightarrow> 'p scene list \<Rightarrow> 'b \<Rightarrow> 'p scene list" where
  "filter_scenes_by_boundary intersects scenes boundary =
     filter_loop intersects boundary scenes []"

subsection \<open>cluster_scenes\<close>

text \<open>The cluster map is a Python dict: keys in insertion order, each key once.\<close>

type_synonym 'p clusters = "(string \<times> 'p scene list) list"

definition dict_contains :: "('k \<times> 'v) list \<Rightarrow> 'k \<Rightarrow> bool" where
  "dict_contains d k = (k \<in> set (map fst d))"

definition dict_append :: "('k \<times> 'v list) list \<Rightarrow> 'k \<Rightarrow> 'v \<Rightarrow> ('k \<times> 'v list) list" where
  \<comment> \<open>\<open>d[k].append(x)\<close> for a key that is present\<close>
  "dict_append d k x = map (\<lambda>(k', v). if k' = k then (k', v @ [x]) else (k', v)) d"

text \<open>The loop of line 159 over \<open>zip(scenes, labels)\<close>.\<close>

fun organize :: "('p scene \<times> int) list \<Rightarrow> 'p clusters \<Rightarrow> nat \<Rightarrow> 'p clusters" where
  "organize [] clusters noise_count = clusters"
| "organize ((scene, label) # rest) clusters noise_count =
     (let noise_count' = (if label = - 1 then noise_count + 1 else noise_count);
          cluster_id = (if label = - 1 then ''single_'' @ str_nat noise_count'
                        else ''cluster_'' @ str_int (label + 1));
          clusters' = (if \<not> dict_contains clusters cluster_id
                       then clusters @ [(cluster_id, [])] else clusters)
      in organize rest (dict_append clusters' cluster_id scene) noise_count')"

text \<open>The density clustering of the library (\<open>DBSCAN(eps, min_samples,
  metric='euclidean').fit_predict(centroids)\<close>) is the parameter \<open>dbscan\<close>: it gives the
  labels, or raises.\<close>

definition cluster_scenes ::
  "float_ops \<Rightarrow> (pyfloat \<Rightarrow> int \<Rightarrow> (pyfloat \<times> pyfloat) list \<Rightarrow> error + int list)
     \<Rightarrow> 'p scene list \<Rightarrow> pyfloat \<Rightarrow> int \<Rightarrow> error + 'p clusters" where
  "cluster_scenes ops dbscan scenes eps_factor min_samples =
     (if scenes = [] then Inr []
      else
        let centroids = map centroid scenes;
            avg_width = f_mean ops (map (\<lambda>s. fst (bbox_size s)) scenes);
            avg_height = f_mean ops (map (\<lambda>s. snd (bbox_size s)) scenes);
            avg_size = f_div ops (f_add ops avg_width avg_height) (Fin 2);
            eps = f_mul ops eps_factor avg_size
        in case dbscan eps min_samples centroids of
             Inl e \<Rightarrow> Inl e
           | Inr labels \<Rightarrow>
               Inr (map (\<lambda>(cluster_id, l). (cluster_id, sorted_reverse cloud_cov l))
                      (organize (zip scenes labels) [] 0)))"

subsection \<open>generate_mosaic_script\<close>

definition default_otb_path :: string where
  "default_otb_path = ''/Users/macbook/OTB-8.1.2-Darwin64/bin/otbcli_Mosaic''"

definition path_join :: "string \<Rightarrow> string \<Rightarrow> string" where
  \<comment> \<open>\<open>os.path.join(a, b)\<close> of \<open>posixpath\<close>\<close>
  "path_join a b =
     (if b \<noteq> [] \<and> hd b = CHR ''/'' then b
      else if a = [] \<or> last a = CHR ''/'' then a @ b
      else a @ ''/'' @ b)"

text \<open>\<open>f"{x:.0f}"\<close>: the nearest integer, a tie going to the even one.\<close>

definition round_half_even :: "real \<Rightarrow> int" where
  "round_half_even x =
     (let f = \<lfloor>x\<rfloor>; d = x - of_int f
      in if d < 1 / 2 then f else if d > 1 / 2 then f + 1 else if even f then f else f + 1)"

definition format_0f :: "real \<Rightarrow> string" where
  "format_0f x = (if x < 0 then CHR ''-'' # str_nat (nat (round_half_even (- x)))
                  else str_nat (nat (round_half_even x)))"

fun py_max :: "real list \<Rightarrow> error + real" where
  "py_max [] = Inl ValueError"
| "py_max (x # xs) = Inr (fold max xs x)"

fun py_min :: "real list \<Rightarrow> error + real" where
  "py_min [] = Inl ValueError"
| "py_min (x # xs) = Inr (fold min xs x)"

definition script_header :: \<open>string \<Rightarrow> string \<Rightarrow> string \<Rightarrow> string \<Rightarrow> string list\<close> where
  \<open>script_header aoi_name otb_path data_dir output_dir =
     [''#!/bin/bash'',
      ''#'',
      ''# Auto-generated mosaic script for '' @ aoi_name,
      ''# Scenes filtered by GeoJSON boundary and clustered spatially'',
      ''#'',
      '''',
      ''# Configuration'',
      ''OTB_MOSAIC="'' @ otb_path @ ''"'',
      ''INPUT_DIR="'' @ data_dir @ ''"'',
      ''OUTPUT_DIR="'' @ output_dir @ ''"'',
      '''',
      ''# Create output directory'',
      ''mkdir -p "$OUTPUT_DIR"'',
      '''',
      ''echo "=========================================="'',
      ''echo "PlanetScope Mosaic - '' @ aoi_name @ ''"'',
      ''echo "Scenes ordered by cloud cover (highest first = bottom)"'',
      ''echo "=========================================="'',
      ''echo "Input directory: $INPUT_DIR"'',
      ''echo "Output directory: $OUTPUT_DIR"'',
      ''echo ""'',
      '''',
      ''# Function to mosaic a cluster'',
      ''mosaic_cluster() {'',
      ''    local cluster=$1'',
      ''    shift'',
      ''    local files=("$@")'',
      '''',
      ''    echo "Processing Cluster $cluster (${#files[@]} scenes)..."'',
      '''',
      ''    # Build input list'',
      ''    local input_files=""'',
      ''    for f in "${files[@]}"; do'',
      ''        input_files="$input_files '' @ [CHR 0x5C] @ ''"$INPUT_DIR/$f'' @ [CHR 0x5C] @ ''""'',
      ''    done'',
      '''',
      ''    local output_file="$OUTPUT_DIR/mosaic_${cluster}.tif"'',
      '''',
      ''    # Run OTB Mosaic'',
      ''    eval "$OTB_MOSAIC" '' @ [CHR 0x5C],
      ''        -il $input_files '' @ [CHR 0x5C],
      ''        -out "'' @ [CHR 0x5C] @ ''"$output_file'' @ [CHR 0x5C] @ ''"" uint16 '' @ [CHR 0x5C],
      ''        -comp.feather large '' @ [CHR 0x5C],
      ''        -harmo.method band '' @ [CHR 0x5C],
      ''        -harmo.cost rmse '' @ [CHR 0x5C],
      ''        -interpolator nn '' @ [CHR 0x5C],
      ''        -nodata 0 '' @ [CHR 0x5C],
      ''        2>&1 | grep -v "^WARN"'',
      '''',
      ''    if [ -f "$output_file" ]; then'',
      ''        echo "  -> Created: $output_file"'',
      ''    else'',
      ''        echo "  -> ERROR creating mosaic for cluster $cluster"'',
      ''    fi'',
      ''    echo ""'',
      ''}'',
      '''']\<close>

definition script_footer :: \<open>string list\<close> where
  \<open>script_footer =
     [''echo "=========================================="'',
      ''echo "Mosaic complete!"'',
      ''echo "Output files in: $OUTPUT_DIR"'',
      ''ls -lh "$OUTPUT_DIR"/mosaic_*.tif 2>/dev/null || echo "No output files found"'',
      ''echo "=========================================="'',
      '''']\<close>

text \<open>The loop of line 268 over \<open>enumerate(cluster_scene_list)\<close>, \<open>n\<close> being
  \<open>len(cluster_scene_list)\<close>.\<close>

fun tif_loop :: \<open>nat \<Rightarrow> nat \<Rightarrow> 'p scene list \<Rightarrow> string list \<Rightarrow> string list\<close> where
  \<open>tif_loop n i [] script_lines = script_lines\<close>
| \<open>tif_loop n i (scene # rest) script_lines =
     tif_loop n (i + 1) rest
       (script_lines @
          [if int i < int n - 1
           then ''    "'' @ tif_file scene @ ''" '' @ [CHR 0x5C]
           else ''    "'' @ tif_file scene @ ''"''])\<close>

text \<open>The loop of line 258 over \<open>sorted_clusters\<close>.\<close>

fun cluster_loop :: \<open>'p clusters \<Rightarrow> string list \<Rightarrow> error + string list\<close> where
  \<open>cluster_loop [] script_lines = Inr script_lines\<close>
| \<open>cluster_loop ((cluster_id, cluster_scene_list) # rest) script_lines =
     (let scene_count = length cluster_scene_list in
      case py_max (map cloud_cov cluster_scene_list) of
        Inl e \<Rightarrow> Inl e
      | Inr hi \<Rightarrow>
         (case py_min (map cloud_cov cluster_scene_list) of
            Inl e \<Rightarrow> Inl e
          | Inr lo \<Rightarrow>
             (let cloud_range = format_0f hi @ ''% -> '' @ format_0f lo @ ''%'';
                  l1 = script_lines @
                         [''# '' @ cluster_id @ '': '' @ str_nat scene_count
                            @ '' scenes (cloud cover: '' @ cloud_range @ '')''];
                  l2 = l1 @ [''mosaic_cluster '' @ cluster_id @ '' '' @ [CHR 0x5C]];
                  l3 = tif_loop scene_count 0 cluster_scene_list l2
              in cluster_loop rest (l3 @ [[]]))))\<close>

fun join_lines :: "string list \<Rightarrow> string" where
  \<comment> \<open>\<open>'\n'.join(script_lines)\<close>\<close>
  "join_lines [] = []"
| "join_lines [l] = l"
| "join_lines (l # ls) = l @ [CHR 0x0A] @ join_lines ls"

text \<open>The local variable \<open>script_lines\<close> when the function reaches line 287.\<close>

definition mosaic_script_lines ::
  "'p clusters \<Rightarrow> string \<Rightarrow> string \<Rightarrow> string option \<Rightarrow> error + string list" where
  "mosaic_script_lines clusters data_dir aoi_name otb_path_arg =
     (let otb_path = (case otb_path_arg of None \<Rightarrow> default_otb_path | Some p \<Rightarrow> p);
          output_dir = path_join data_dir (''mosaic_'' @ aoi_name);
          script_lines = script_header aoi_name otb_path data_dir output_dir;
          sorted_clusters = sorted_reverse (\<lambda>x. length (snd x)) clusters
      in case cluster_loop sorted_clusters script_lines of
           Inl e \<Rightarrow> Inl e
         | Inr ls \<Rightarrow> Inr (ls @ script_footer))"

text \<open>The text written to \<open>output_script\<close>, and the value returned.\<close>

definition generate_mosaic_script ::
  "'p clusters \<Rightarrow> string \<Rightarrow> string \<Rightarrow> string option \<Rightarrow> error + (string \<times> 'p clusters)" where
  "generate_mosaic_script clusters data_dir aoi_name otb_path_arg =
     (case mosaic_script_lines clusters data_dir aoi_name otb_path_arg of
        Inl e \<Rightarrow> Inl e
      | Inr script_lines \<Rightarrow>
          Inr (join_lines script_lines, sorted_reverse (\<lambda>x. length (snd x)) clusters))"

section \<open>Invariants of the flood-aware loop\<close>

text \<open>A printed status is consistent when its verdict and its reason are the ones that
  lines 195 to 209 give for the cloud cover and the water percentage it shows.\<close>

definition line_ok :: "pyfloat \<Rightarrow> pyfloat \<Rightarrow> status_line \<Rightarrow> bool" where
  "line_ok cm mw l =
     (sl_selected l = (fle (sl_cloud l) cm \<or> fge (sl_water l) mw) \<and>
      sl_reason l = (if fle (sl_cloud l) cm then ''low_cloud''
                     else if fge (sl_water l) mw then ''high_cloud_water''
                     else ''high_cloud_no_water''))"

definition flood_inv :: "pyfloat \<Rightarrow> pyfloat \<Rightarrow> flood_state \<Rightarrow> bool" where
  "flood_inv cm mw st =
     ((\<forall>l \<in> set (st_printed st). line_ok cm mw l) \<and>
      accepted (st_stats st) = length (filter sl_selected (st_printed st)) \<and>
      rejected (st_stats st) = length (filter (\<lambda>l. \<not> sl_selected l) (st_printed st)))"

text \<open>An imagery file is unavailable when it is missing or GDAL cannot open it.\<close>

definition unavailable :: "('ds, 'band, 'arr) raster_lib \<Rightarrow> fs \<Rightarrow> string \<Rightarrow> bool" where
  "unavailable lib fs p =
     (\<not> fs_exists fs p \<or> rl_open lib p = OpenNone \<or> rl_open lib p = OpenRaises)"

section \<open>What the shapefile selection reads of a metadata file\<close>





section \<open>The layout of the generated script\<close>

text \<open>The lines that the script holds for one cluster: a comment, the invocation of
  \<open>mosaic_cluster\<close> with the cluster's name, one argument line per scene in the order of
  the cluster's list (all but the last continued by a backslash), and an empty line. The
  whole script is the header, the blocks of the clusters in the order of
  \<open>sorted_clusters\<close>, and the footer.\<close>

definition tif_arg_lines :: \<open>'p scene list \<Rightarrow> string list\<close> where
  \<open>tif_arg_lines l =
     map (\<lambda>k. ''    "'' @ tif_file (l ! k) @
                (if k + 1 < length l then ''" '' @ [CHR 0x5C] else ''"''))
       [0..<length l]\<close>

definition cluster_comment :: \<open>string \<Rightarrow> 'p scene list \<Rightarrow> string\<close> where
  \<open>cluster_comment cluster_id l =
     ''# '' @ cluster_id @ '': '' @ str_nat (length l) @ '' scenes (cloud cover: ''
       @ format_0f (Max (set (map cloud_cov l))) @ ''% -> ''
       @ format_0f (Min (set (map cloud_cov l))) @ ''%'' @ '')''\<close>

definition invocation :: \<open>string \<Rightarrow> string\<close> where
  \<open>invocation cluster_id = ''mosaic_cluster '' @ cluster_id @ '' '' @ [CHR 0x5C]\<close>

definition cluster_block :: \<open>string \<times> 'p scene list \<Rightarrow> string list\<close> where
  \<open>cluster_block c =
     [cluster_comment (fst c) (snd c), invocation (fst c)] @ tif_arg_lines (snd c) @ [[]]\<close>

definition script_layout :: \<open>'p clusters \<Rightarrow> string \<Rightarrow> string \<Rightarrow> string option \<Rightarrow> string list\<close> where
  \<open>script_layout clusters data_dir aoi_name otb_path_arg =
     script_header aoi_name (case otb_path_arg of None \<Rightarrow> default_otb_path | Some p \<Rightarrow> p)
        data_dir (path_join data_dir (''mosaic_'' @ aoi_name))
     @ concat (map cluster_block (sorted_reverse (\<lambda>x. length (snd x)) clusters))
     @ script_footer\<close>

section \<open>The grouping that the labels prescribe\<close>

text \<open>The names that the loop of line 159 gives to the labels in turn, \<open>n\<close> being
  \<open>noise_count\<close> before the first of them; the scenes filed under a name; the
  invariant of the cluster map while it is built (each key once, no empty list); and what
  it means that a cluster map groups keyed scenes: its keys are the names in use, each
  once, and the list of a key holds the scenes filed under it, in their order.\<close>

fun cluster_keys :: "int list \<Rightarrow> nat \<Rightarrow> string list" where
  "cluster_keys [] n = []"
| "cluster_keys (label # labels) n =
     (if label = - 1 then (''single_'' @ str_nat (n + 1)) # cluster_keys labels (n + 1)
      else (''cluster_'' @ str_int (label + 1)) # cluster_keys labels n)"

definition members :: "string \<Rightarrow> ('a \<times> string) list \<Rightarrow> 'a list" where
  "members k kvs = map fst (filter (\<lambda>p. snd p = k) kvs)"

definition clusters_inv :: "('k \<times> 'v list) list \<Rightarrow> bool" where
  "clusters_inv d = (distinct (map fst d) \<and> (\<forall>(k, v) \<in> set d. v \<noteq> []))"

definition groups :: "(string \<times> 'a list) list \<Rightarrow> ('a \<times> string) list \<Rightarrow> bool" where
  "groups cl kvs =
     (distinct (map fst cl) \<and> set (map fst cl) = set (map snd kvs) \<and>
      (\<forall>c \<in> set cl. snd c = members (fst c) kvs))"

section \<open>Sample inputs\<close>

text \<open>Float operations for the samples: exact on finite operands, NaN otherwise.\<close>

definition lift2 :: "(real \<Rightarrow> real \<Rightarrow> real) \<Rightarrow> pyfloat \<Rightarrow> pyfloat \<Rightarrow> pyfloat" where
  "lift2 f a b = (case (a, b) of (Fin x, Fin y) \<Rightarrow> Fin (f x y) | _ \<Rightarrow> NaN)"

definition exact_ops :: float_ops where
  "exact_ops = \<lparr>f_add = lift2 (+), f_mul = lift2 (*), f_div = lift2 (/),
                f_of_nat = (\<lambda>n. Fin (real n)),
                f_mean = (\<lambda>xs. lift2 (/) (foldr (lift2 (+)) xs (Fin 0)) (Fin (real (length xs))))\<rparr>"

text \<open>A raster library that opens no file, and one whose every scene has 4 pixels, all
  clear, one of them water.\<close>

definition no_raster :: "(unit, unit, unit) raster_lib" where
  "no_raster = \<lparr>rl_open = (\<lambda>p. OpenNone), rl_band = (\<lambda>ds n. Inl LibraryError),
                rl_read = (\<lambda>b. Inl LibraryError), rl_size = (\<lambda>a. Inl LibraryError),
                rl_clear = (\<lambda>a b c. Inl LibraryError), rl_water = (\<lambda>a b t. Inl LibraryError),
                rl_sum = (\<lambda>a. Inl LibraryError)\<rparr>"

definition quarter_water :: "(unit, unit, bool) raster_lib" where
  "quarter_water = \<lparr>rl_open = (\<lambda>p. Opened ()), rl_band = (\<lambda>ds n. Inr ()),
                    rl_read = (\<lambda>b. Inr False), rl_size = (\<lambda>a. Inr 4),
                    rl_clear = (\<lambda>a b c. Inr False), rl_water = (\<lambda>a b t. Inr True),
                    rl_sum = (\<lambda>a. Inr (if a then 1 else 4))\<rparr>"

text \<open>A directory with two scenes, listed out of order, and two other files. Scene
  \<open>s1\<close> has 30% cloud cover and a STAC footprint; scene \<open>s2\<close> has 95% cloud cover. No
  imagery file is present.\<close>

definition no_props :: props where
  "no_props = \<lparr>p_cloud_cover = None, p_acquired = None, p_clear_percent = None,
               p_gsd = None, p_satellite_id = None, p_sun_elevation = None,
               p_sun_azimuth = None, p_view_angle = None\<rparr>"

definition s1_metadata :: json_doc where
  "s1_metadata = \<lparr>j_properties = Some (no_props\<lparr>p_cloud_cover := Some (Fin (3 / 10))\<rparr>),
                  j_top = no_props, j_geometry = None\<rparr>"

definition s2_metadata :: json_doc where
  "s2_metadata = \<lparr>j_properties = None,
                  j_top = no_props\<lparr>p_cloud_cover := Some (Fin (95 / 100))\<rparr>,
                  j_geometry = None\<rparr>"

definition s1_stac :: json_doc where
  "s1_stac = \<lparr>j_properties = None, j_top = no_props,
              j_geometry = Some \<lparr>g_coordinates = Some [[(0, 0), (1, 0), (1, 1), (0, 0)]]\<rparr>\<rparr>"

definition sample_json :: "string \<Rightarrow> json_doc option" where
  "sample_json n =
     (if n = ''s1_metadata.json'' then Some s1_metadata
      else if n = ''s2_metadata.json'' then Some s2_metadata
      else if n = ''s1.json'' then Some s1_stac
      else None)"

definition sample_exists :: "string \<Rightarrow> bool" where
  "sample_exists n = (n = ''s1.json'' \<or> n = ''s1_metadata.json'' \<or> n = ''s2_metadata.json'')"

definition sample_fs :: fs where
  "sample_fs = \<lparr>fs_listdir = [''s2_metadata.json'', ''notes.txt'', ''s1_metadata.json'', ''s1.json''],
                fs_exists = sample_exists, fs_json = sample_json\<rparr>"

text \<open>A directory with one scene whose metadata give NaN as cloud cover (\<open>json.load\<close>
  reads the literal \<open>NaN\<close>), every file being present; and a directory with two
  metadata files that cannot be loaded.\<close>

definition s3_metadata :: json_doc where
  "s3_metadata = \<lparr>j_properties = Some (no_props\<lparr>p_cloud_cover := Some NaN\<rparr>),
                  j_top = no_props, j_geometry = None\<rparr>"

definition nan_fs :: fs where
  "nan_fs = \<lparr>fs_listdir = [''s3_metadata.json''], fs_exists = (\<lambda>n. True),
             fs_json = (\<lambda>n. Some s3_metadata)\<rparr>"


text \<open>Three scenes over polygons given as bounding boxes \<open>((xmin, ymin), (xmax, ymax))\<close>,
  an intersection test for such boxes, a clustering that labels every point as noise, and
  one that groups the points left of \<open>x = 5\<close> and leaves the others as noise.\<close>

type_synonym box = "point \<times> point"

definition box_intersects :: "box \<Rightarrow> box \<Rightarrow> bool" where
  "box_intersects a b =
     (fst (fst a) \<le> fst (snd b) \<and> fst (fst b) \<le> fst (snd a) \<and>
      snd (fst a) \<le> snd (snd b) \<and> snd (fst b) \<le> snd (snd a))"

definition scene_a :: "box scene" where
  "scene_a = \<lparr>scene_id = ''a'', tif_file = ''a.tif'', cloud_cov = 10, water_pct = 0,
              centroid = (Fin 1, Fin 1), bbox_size = (Fin 2, Fin 2), polygon = ((0, 0), (2, 2)),
              geometry = [(0, 0), (2, 0), (2, 2), (0, 2)]\<rparr>"

definition scene_b :: "box scene" where
  "scene_b = \<lparr>scene_id = ''b'', tif_file = ''b.tif'', cloud_cov = 40, water_pct = 5,
              centroid = (Fin 11, Fin 1), bbox_size = (Fin 2, Fin 4), polygon = ((10, 0), (12, 4)),
              geometry = [(10, 0), (12, 0), (12, 4), (10, 4)]\<rparr>"

definition scene_c :: "box scene" where
  "scene_c = \<lparr>scene_id = ''c'', tif_file = ''c.tif'', cloud_cov = 70, water_pct = 2,
              centroid = (Fin 2, Fin 1), bbox_size = (Fin 2, Fin 2), polygon = ((1, 0), (3, 2)),
              geometry = [(1, 0), (3, 0), (3, 2), (1, 2)]\<rparr>"

definition all_noise :: "pyfloat \<Rightarrow> int \<Rightarrow> (pyfloat \<times> pyfloat) list \<Rightarrow> error + int list" where
  "all_noise eps min_samples centroids = Inr (map (\<lambda>c. - 1) centroids)"

definition near_origin :: "pyfloat \<Rightarrow> int \<Rightarrow> (pyfloat \<times> pyfloat) list \<Rightarrow> error + int list" where
  "near_origin eps min_samples centroids =
     Inr (map (\<lambda>c. if flt (fst c) (Fin 5) then 0 else - 1) centroids)"

section \<open>Properties of mosaic_by_geojson.py\<close>

subsection \<open>The boundary filter\<close>

lemma filter_loop_eq:
  "filter_loop I b scenes acc = acc @ filter (\<lambda>s. I (polygon s) b) scenes"
  by (induction scenes arbitrary: acc) auto

text \<open>
  Claim C2. Whatever the scenes and the boundary, \<open>filter_scenes_by_boundary\<close> returns
  the scenes whose polygon intersects the boundary, each as it was given and in the order
  of the input: the result is the input filtered by the intersection test, a subsequence
  of the input.
\<close>

theorem filter_scenes_by_boundary_subsequence:
  "filter_scenes_by_boundary intersects scenes boundary
     = filter (\<lambda>s. intersects (polygon s) boundary) scenes
   \<and> subseq (filter_scenes_by_boundary intersects scenes boundary) scenes"
  by (simp add: filter_scenes_by_boundary_def filter_loop_eq)

subsection \<open>Clustering of the empty list\<close>

text \<open>
  Claim C10. On the empty list of scenes \<open>cluster_scenes\<close> returns the empty cluster map,
  whatever \<open>eps_factor\<close> and \<open>min_samples\<close> are and whatever the clustering library would
  do (it is not called): no error is raised.
\<close>

theorem cluster_scenes_empty:
  "cluster_scenes ops dbscan [] eps_factor min_samples = Inr []"
  by (simp add: cluster_scenes_def)

section \<open>The cluster map is a partition of the scenes\<close>

lemma dict_append_keys: "map fst (dict_append d k x) = map fst d"
  by (induction d) (auto simp: dict_append_def)

lemma dict_append_absent:
  "k \<notin> set (map fst d) \<Longrightarrow> dict_append d k x = d"
  by (induction d) (auto simp: dict_append_def)

lemma dict_append_mset:
  "distinct (map fst d) \<Longrightarrow> k \<in> set (map fst d) \<Longrightarrow>
   mset (concat (map snd (dict_append d k x))) = mset (concat (map snd d)) + {#x#}"
proof (induction d)
  case Nil
  then show ?case by simp
next
  case (Cons p d)
  obtain k' v where p: "p = (k', v)" by (cases p)
  show ?case
  proof (cases "k' = k")
    case True
    with Cons.prems p have "k \<notin> set (map fst d)" by auto
    then have "dict_append d k x = d" by (rule dict_append_absent)
    then have "dict_append (p # d) k x = (k, v @ [x]) # d"
      using True p by (simp add: dict_append_def)
    then show ?thesis using p by simp
  next
    case False
    with Cons.prems p have "k \<in> set (map fst d)" and "distinct (map fst d)" by auto
    from Cons.IH [OF this(2) this(1)]
    have "mset (concat (map snd (dict_append d k x))) = mset (concat (map snd d)) + {#x#}" .
    moreover have "dict_append (p # d) k x = p # dict_append d k x"
      using False p by (simp add: dict_append_def)
    ultimately show ?thesis by simp
  qed
qed

lemma dict_append_nonempty:
  "\<forall>(k', v) \<in> set d. k' \<noteq> k \<longrightarrow> v \<noteq> [] \<Longrightarrow>
   \<forall>(k', v) \<in> set (dict_append d k x). v \<noteq> []"
  by (auto simp: dict_append_def split: if_splits)

lemma organize_partition:
  "clusters_inv cl \<Longrightarrow>
   clusters_inv (organize zs cl n) \<and>
   mset (concat (map snd (organize zs cl n))) = mset (concat (map snd cl)) + mset (map fst zs)"
proof (induction zs arbitrary: cl n)
  case Nil
  then show ?case by simp
next
  case (Cons z zs)
  obtain scene label where z: "z = (scene, label)" by (cases z)
  define n' where "n' = (if label = - 1 then n + 1 else n)"
  define cid where "cid = (if label = - 1 then ''single_'' @ str_nat n'
                        else ''cluster_'' @ str_int (label + 1))"
  define cl' where "cl' = (if \<not> dict_contains cl cid then cl @ [(cid, [])] else cl)"
  have step: "organize (z # zs) cl n = organize zs (dict_append cl' cid scene) n'"
    by (simp add: z n'_def cid_def cl'_def Let_def)
  have d: "distinct (map fst cl')" and m: "cid \<in> set (map fst cl')"
    and ne: "\<forall>(k', v) \<in> set cl'. k' \<noteq> cid \<longrightarrow> v \<noteq> []"
    and c: "mset (concat (map snd cl')) = mset (concat (map snd cl))"
    using Cons.prems by (auto simp: cl'_def dict_contains_def clusters_inv_def)
  have inv: "clusters_inv (dict_append cl' cid scene)"
    unfolding clusters_inv_def
    using d dict_append_nonempty [OF ne] by (simp add: dict_append_keys)
  have ms: "mset (concat (map snd (dict_append cl' cid scene)))
              = mset (concat (map snd cl)) + {#scene#}"
    using dict_append_mset [OF d m] c by simp
  show ?case
    unfolding step using Cons.IH [OF inv, of n'] ms by (simp add: z)
qed

lemma mset_sorted_reverse: "mset (sorted_reverse k xs) = mset xs"
  by (simp add: sorted_reverse_def)

lemma sorted_reverse_nonempty: "sorted_reverse k xs = [] \<longleftrightarrow> xs = []"
  using mset_sorted_reverse [of k xs] by (metis mset_zero_iff)

lemma mset_concat_sorted:
  "mset (concat (map snd (map (\<lambda>(cid, l). (cid, sorted_reverse k l)) d)))
     = mset (concat (map snd d))"
  by (induction d) (auto simp: mset_sorted_reverse)

lemma str_nat_1: "str_nat (Suc 0) = ''1''" "str_nat 1 = ''1''"
  by (simp_all add: str_nat.simps digit_char_def)

lemma str_int_1: "str_int 1 = ''1''"
  by (simp add: str_int_def str_nat_1)

lemma sample_labels:
  "near_origin eps ms [centroid scene_a, centroid scene_b, centroid scene_c] = Inr [0, - 1, 0]"
  by (simp add: near_origin_def scene_a_def scene_b_def scene_c_def flt_def fle_def)

lemma sample_organize:
  "organize [(scene_a, 0), (scene_b, - 1), (scene_c, 0)] [] 0
     = [(''cluster_1'', [scene_a, scene_c]), (''single_1'', [scene_b])]"
  by (simp add: Let_def str_nat_1 str_int_1 dict_contains_def dict_append_def)

lemma sample_cloud_cov:
  "cloud_cov scene_a = 10" "cloud_cov scene_b = 40" "cloud_cov scene_c = 70"
  by (simp_all add: scene_a_def scene_b_def scene_c_def)

lemma sample_clusters:
  "cluster_scenes exact_ops near_origin [scene_a, scene_b, scene_c] (Fin (3 / 2)) 2
     = Inr [(''cluster_1'', [scene_c, scene_a]), (''single_1'', [scene_b])]"
  by (simp add: cluster_scenes_def Let_def sample_labels sample_organize
        sorted_reverse_def sample_cloud_cov del: organize.simps)

lemma near_origin_contract:
  "\<forall>eps ms cs labels. near_origin eps ms cs = Inr labels \<longrightarrow> length labels = length cs"
  by (auto simp: near_origin_def)

text \<open>
  Claim C3. The cluster map that \<open>cluster_scenes\<close> returns is a partition of its input,
  given that the clustering library returns one label per point: the keys of the map are
  distinct, the scene lists of the clusters hold together exactly the input scenes, each
  as often as the input holds it (so every input scene is in exactly one cluster and no
  cluster holds a scene that was not given), and no cluster is empty.
\<close>

theorem cluster_scenes_partition:
  assumes cs: "cluster_scenes ops dbscan scenes eps_factor min_samples = Inr clusters"
      and contract: "\<forall>eps ms cs labels. dbscan eps ms cs = Inr labels \<longrightarrow> length labels = length cs"
  shows "distinct (map fst clusters)
       \<and> mset (concat (map snd clusters)) = mset scenes
       \<and> (\<forall>l \<in> set (map snd clusters). l \<noteq> [])"
proof (cases "scenes = []")
  case True
  with cs show ?thesis by (simp add: cluster_scenes_def)
next
  case False
  from cs False obtain eps labels where
      db: "dbscan eps min_samples (map centroid scenes) = Inr labels"
    and cl: "clusters = map (\<lambda>(cid, l). (cid, sorted_reverse cloud_cov l))
                          (organize (zip scenes labels) [] 0)"
    by (auto simp: cluster_scenes_def Let_def split: sum.splits)
  from contract db have len: "length labels = length scenes" by fastforce
  have z: "map fst (zip scenes labels) = scenes"
    using len by simp
  have e: "clusters_inv ([] :: (string \<times> 'a scene list) list)" by (simp add: clusters_inv_def)
  note o = organize_partition [OF e, of "zip scenes labels" 0, unfolded z]
  have k: "map fst clusters = map fst (organize (zip scenes labels) [] 0)"
    by (simp add: cl split_def comp_def)
  have "\<forall>l \<in> set (map snd clusters). l \<noteq> []"
    using o unfolding cl clusters_inv_def
    by (auto simp: sorted_reverse_nonempty)
  moreover have "mset (concat (map snd clusters))
                  = mset (concat (map snd (organize (zip scenes labels) [] 0)))"
    unfolding cl by (rule mset_concat_sorted)
  with o have "mset (concat (map snd clusters)) = mset scenes" by simp
  moreover have "distinct (map fst clusters)"
    using o k by (simp add: clusters_inv_def)
  ultimately show ?thesis by blast
qed

theorem cluster_scenes_partition_witness:
  "cluster_scenes exact_ops near_origin [scene_a, scene_b, scene_c] (Fin (3 / 2)) 2
     = Inr [(''cluster_1'', [scene_c, scene_a]), (''single_1'', [scene_b])]
   \<and> distinct (map fst [(''cluster_1'', [scene_c, scene_a]), (''single_1'', [scene_b])])
   \<and> mset (concat (map snd [(''cluster_1'', [scene_c, scene_a]), (''single_1'', [scene_b])]))
       = mset [scene_a, scene_b, scene_c]"
  using cluster_scenes_partition [OF sample_clusters near_origin_contract] sample_clusters
  by blast

section \<open>Properties of select_scenes_flood_aware.py\<close>

subsection \<open>Comparisons of floats\<close>

lemma fle_Fin [simp]: "fle (Fin x) (Fin y) = (x \<le> y)"
  by (simp add: fle_def)

lemma fle_NaN [simp]: "fle NaN b = False" "fle a NaN = False"
  by (simp_all add: fle_def)

lemma flt_not_fle: "flt a b \<Longrightarrow> \<not> fle b a"
  by (simp add: flt_def)

lemma fgt_not_fle: "fgt a b \<Longrightarrow> \<not> fle a b"
  by (simp add: fgt_def flt_def)

subsection \<open>The verdict on every scene\<close>

lemma selection_verdict:
  "selection c cm w mw s = (sel, reason, s') \<Longrightarrow>
     sel = (fle c cm \<or> fge w mw) \<and>
     reason = (if fle c cm then ''low_cloud''
               else if fge w mw then ''high_cloud_water'' else ''high_cloud_no_water'') \<and>
     accepted s' = accepted s \<and> rejected s' = rejected s"
  by (auto simp: selection_def split: if_splits)

lemma flood_step_inv:
  assumes "flood_inv cm mw st"
  shows "flood_inv cm mw (fst (flood_step ops lib fs cm nt mw f st))"
  using assms
  unfolding flood_step_def Let_def flood_inv_def line_ok_def
  by (auto split: option.splits sum.splits prod.splits if_splits dest!: selection_verdict)

lemma flood_loop_inv:
  "flood_inv cm mw st \<Longrightarrow> flood_inv cm mw (fst (flood_loop ops lib fs cm nt mw files st))"
proof (induction files arbitrary: st)
  case Nil
  then show ?case by simp
next
  case (Cons f files)
  obtain st' e where step: "flood_step ops lib fs cm nt mw f st = (st', e)"
    by (cases "flood_step ops lib fs cm nt mw f st")
  from Cons.prems have inv': "flood_inv cm mw st'"
    using flood_step_inv [of cm mw st ops lib fs nt f] step by simp
  show ?case
  proof (cases e)
    case None
    with step Cons.IH [OF inv'] show ?thesis by simp
  next
    case (Some a)
    with step inv' show ?thesis by simp
  qed
qed

lemma flood_inv_initial:
  "flood_inv cm mw \<lparr>st_stats = initial_stats, st_shapes = [], st_printed = []\<rparr>"
  by (simp add: flood_inv_def initial_stats_def)

lemma flood_inv_run:
  "flood_inv cm mw (fst (select_scenes_flood_aware ops lib fs cm nt mw))"
  unfolding select_scenes_flood_aware_def Let_def
  by (rule flood_loop_inv) (rule flood_inv_initial)

subsection \<open>detect_water_extent\<close>

lemma try_block_unopened:
  "rl_open lib t = OpenNone \<or> rl_open lib t = OpenRaises \<or>
   rl_open lib u = OpenNone \<or> rl_open lib u = OpenRaises \<Longrightarrow>
   try_block ops lib t u n r = Inr r \<or> (\<exists>e. try_block ops lib t u n r = Inl e)"
  unfolding try_block_def ebind_def
  by (auto split: gdal_open.splits sum.splits)

lemma detect_water_extent_returns:
  "\<exists>r. detect_water_extent ops lib fs t u n = Inr r"
  unfolding detect_water_extent_def Let_def
  by (auto split: sum.splits)

lemma detect_water_extent_default:
  assumes "unavailable lib fs t \<or> unavailable lib fs u"
  shows "detect_water_extent ops lib fs t u n = Inr default_result"
proof (cases "\<not> fs_exists fs t \<or> \<not> fs_exists fs u")
  case True
  then show ?thesis by (auto simp: detect_water_extent_def Let_def)
next
  case False
  with assms have "rl_open lib t = OpenNone \<or> rl_open lib t = OpenRaises \<or>
           rl_open lib u = OpenNone \<or> rl_open lib u = OpenRaises"
    unfolding unavailable_def by blast
  from try_block_unopened [OF this, of ops n default_result]
  show ?thesis using False
    by (auto simp: detect_water_extent_def Let_def split: sum.splits)
qed

subsection \<open>Single iterations of the loop\<close>

lemma flood_step_missing_imagery:
  assumes j: "fs_json fs f = Some data"
      and c: "fgt (f_mul ops (opt_default (p_cloud_cover (get_props data)) (Fin 1)) (Fin 100)) cm"
      and w: "fgt mw (Fin 0)"
      and m: "unavailable lib fs (py_replace metadata_suffix [] f @ tif_suffix) \<or>
              unavailable lib fs (py_replace metadata_suffix [] f @ udm2_suffix)"
  shows "flood_step ops lib fs cm nt mw f st =
           (st\<lparr>st_stats := (st_stats st)
                   \<lparr>total_scenes := total_scenes (st_stats st) + 1,
                    high_cloud_no_water_reject := high_cloud_no_water_reject (st_stats st) + 1,
                    rejected := rejected (st_stats st) + 1\<rparr>,
               st_printed := st_printed st @
                 [\<lparr>sl_selected = False, sl_base = py_replace metadata_suffix [] f,
                   sl_cloud = f_mul ops (opt_default (p_cloud_cover (get_props data)) (Fin 1)) (Fin 100),
                   sl_water = Fin 0, sl_clear = Fin 0,
                   sl_reason = ''high_cloud_no_water''\<rparr>]\<rparr>, None)"
proof -
  have d: "detect_water_extent ops lib fs (py_replace metadata_suffix [] f @ tif_suffix)
             (py_replace metadata_suffix [] f @ udm2_suffix) nt = Inr default_result"
    by (rule detect_water_extent_default) (rule m)
  have s: "selection (f_mul ops (opt_default (p_cloud_cover (get_props data)) (Fin 1)) (Fin 100))
             cm (Fin 0) mw s0 =
             (False, ''high_cloud_no_water'',
              s0\<lparr>high_cloud_no_water_reject := high_cloud_no_water_reject s0 + 1\<rparr>)" for s0
    using fgt_not_fle [OF c] fgt_not_fle [OF w] by (simp add: selection_def fge_def)
  show ?thesis
    unfolding flood_step_def
    by (simp add: j d s Let_def default_result_def)
qed

lemma flood_step_accept:
  assumes j: "fs_json fs f = Some data"
      and d: "detect_water_extent ops lib fs (py_replace metadata_suffix [] f @ tif_suffix)
                (py_replace metadata_suffix [] f @ udm2_suffix) nt = Inr wi"
      and sel: "\<And>s0. selection
                  (f_mul ops (opt_default (p_cloud_cover (get_props data)) (Fin 1)) (Fin 100))
                  cm (wi_water_pct wi) mw s0 = (True, reason, upd s0)"
      and e: "\<not> fs_exists fs (py_replace metadata_suffix [] f @ ''.json'')"
  shows "flood_step ops lib fs cm nt mw f st =
           (st\<lparr>st_stats := (upd ((st_stats st)\<lparr>total_scenes := total_scenes (st_stats st) + 1\<rparr>))
                   \<lparr>accepted := accepted
                      (upd ((st_stats st)\<lparr>total_scenes := total_scenes (st_stats st) + 1\<rparr>)) + 1\<rparr>,
               st_printed := st_printed st @
                 [\<lparr>sl_selected = True, sl_base = py_replace metadata_suffix [] f,
                   sl_cloud = f_mul ops (opt_default (p_cloud_cover (get_props data)) (Fin 1)) (Fin 100),
                   sl_water = wi_water_pct wi, sl_clear = wi_clear_pct wi,
                   sl_reason = reason\<rparr>]\<rparr>, None)"
  unfolding flood_step_def
  by (simp add: j d sel e Let_def)

lemma flood_step_accept_stac:
  assumes j: "fs_json fs f = Some data"
      and d: "detect_water_extent ops lib fs (py_replace metadata_suffix [] f @ tif_suffix)
                (py_replace metadata_suffix [] f @ udm2_suffix) nt = Inr wi"
      and sel: "\<And>s0. selection
                  (f_mul ops (opt_default (p_cloud_cover (get_props data)) (Fin 1)) (Fin 100))
                  cm (wi_water_pct wi) mw s0 = (True, reason, upd s0)"
      and e: "fs_exists fs (py_replace metadata_suffix [] f @ ''.json'')"
      and s: "fs_json fs (py_replace metadata_suffix [] f @ ''.json'') = Some stac"
  shows "snd (flood_step ops lib fs cm nt mw f st) = None
       \<and> st_printed (fst (flood_step ops lib fs cm nt mw f st)) = st_printed st @
            [\<lparr>sl_selected = True, sl_base = py_replace metadata_suffix [] f,
              sl_cloud = f_mul ops (opt_default (p_cloud_cover (get_props data)) (Fin 1)) (Fin 100),
              sl_water = wi_water_pct wi, sl_clear = wi_clear_pct wi,
              sl_reason = reason\<rparr>]
       \<and> st_stats (fst (flood_step ops lib fs cm nt mw f st)) =
            (upd ((st_stats st)\<lparr>total_scenes := total_scenes (st_stats st) + 1\<rparr>))
              \<lparr>accepted := accepted
                 (upd ((st_stats st)\<lparr>total_scenes := total_scenes (st_stats st) + 1\<rparr>)) + 1\<rparr>"
  unfolding flood_step_def
  by (simp add: j d sel e s Let_def)

lemma flood_loop_Cons:
  "flood_loop ops lib fs cm nt mw (f # files) st =
     (if snd (flood_step ops lib fs cm nt mw f st) = None
      then flood_loop ops lib fs cm nt mw files (fst (flood_step ops lib fs cm nt mw f st))
      else flood_step ops lib fs cm nt mw f st)"
  by (cases "flood_step ops lib fs cm nt mw f st") (auto split: option.splits)

subsection \<open>The sample runs\<close>

lemma sample_files:
  "sort (filter (\<lambda>f. endswith f metadata_suffix) (fs_listdir sample_fs))
     = [''s1_metadata.json'', ''s2_metadata.json'']"
  by (simp add: sample_fs_def endswith_def metadata_suffix_def suffix_to_prefix
        less_eq_char_def less_char_def)

lemma sample_base:
  "py_replace metadata_suffix [] ''s1_metadata.json'' = ''s1''"
  "py_replace metadata_suffix [] ''s2_metadata.json'' = ''s2''"
  "py_replace metadata_suffix [] ''s3_metadata.json'' = ''s3''"
  by (simp_all add: metadata_suffix_def py_replace.simps)

lemma sample_unavailable: "unavailable no_raster fs p"
  by (simp add: unavailable_def no_raster_def)

lemma sample_detect:
  "detect_water_extent ops no_raster fs t u n = Inr default_result"
  by (rule detect_water_extent_default) (simp add: sample_unavailable)

lemma sample_json_files:
  "fs_json sample_fs ''s1_metadata.json'' = Some s1_metadata"
  "fs_json sample_fs ''s2_metadata.json'' = Some s2_metadata"
  "fs_json sample_fs ''s1.json'' = Some s1_stac"
  "fs_exists sample_fs ''s1.json''"
  by (simp_all add: sample_fs_def sample_json_def sample_exists_def)

lemma sample_cloud:
  "f_mul exact_ops (opt_default (p_cloud_cover (get_props s1_metadata)) (Fin 1)) (Fin 100) = Fin 30"
  "f_mul exact_ops (opt_default (p_cloud_cover (get_props s2_metadata)) (Fin 1)) (Fin 100) = Fin 95"
  "f_mul exact_ops (opt_default (p_cloud_cover (get_props s3_metadata)) (Fin 1)) (Fin 100) = NaN"
  by (simp_all add: s1_metadata_def s2_metadata_def s3_metadata_def get_props_def
        opt_default_def no_props_def exact_ops_def lift2_def)

lemma sample_step1:
  "snd (flood_step exact_ops no_raster sample_fs (Fin 80) nt (Fin 1) ''s1_metadata.json'' st) = None
   \<and> st_printed (fst (flood_step exact_ops no_raster sample_fs (Fin 80) nt (Fin 1)
                        ''s1_metadata.json'' st))
       = st_printed st @
           [\<lparr>sl_selected = True, sl_base = ''s1'', sl_cloud = Fin 30, sl_water = Fin 0,
             sl_clear = Fin 0, sl_reason = ''low_cloud''\<rparr>]
   \<and> st_stats (fst (flood_step exact_ops no_raster sample_fs (Fin 80) nt (Fin 1)
                      ''s1_metadata.json'' st))
       = (st_stats st)\<lparr>total_scenes := total_scenes (st_stats st) + 1,
                        low_cloud_accept := low_cloud_accept (st_stats st) + 1,
                        accepted := accepted (st_stats st) + 1\<rparr>"
proof -
  have sel: "selection
       (f_mul exact_ops (opt_default (p_cloud_cover (get_props s1_metadata)) (Fin 1)) (Fin 100))
       (Fin 80) (wi_water_pct default_result) (Fin 1) s0
     = (True, ''low_cloud'', s0\<lparr>low_cloud_accept := low_cloud_accept s0 + 1\<rparr>)" for s0
    by (simp add: sample_cloud selection_def)
  from flood_step_accept_stac
    [where data = s1_metadata and wi = default_result and stac = s1_stac
       and upd = "\<lambda>s0. s0\<lparr>low_cloud_accept := low_cloud_accept s0 + 1\<rparr>"
       and reason = "''low_cloud''" and f = "''s1_metadata.json''" and fs = sample_fs
       and ops = exact_ops and lib = no_raster and cm = "Fin 80" and mw = "Fin 1"
       and nt = nt and st = st,
     OF sample_json_files(1) sample_detect sel]
  show ?thesis
    by (simp add: sample_base sample_json_files sample_cloud default_result_def)
qed

lemma sample_step2:
  "flood_step exact_ops no_raster sample_fs (Fin 80) nt (Fin 1) ''s2_metadata.json'' st =
     (st\<lparr>st_stats := (st_stats st)
             \<lparr>total_scenes := total_scenes (st_stats st) + 1,
              high_cloud_no_water_reject := high_cloud_no_water_reject (st_stats st) + 1,
              rejected := rejected (st_stats st) + 1\<rparr>,
         st_printed := st_printed st @
           [\<lparr>sl_selected = False, sl_base = ''s2'', sl_cloud = Fin 95, sl_water = Fin 0,
             sl_clear = Fin 0, sl_reason = ''high_cloud_no_water''\<rparr>]\<rparr>, None)"
  by (subst flood_step_missing_imagery [where data = s2_metadata])
     (simp_all add: sample_json_files sample_base sample_cloud sample_unavailable
        fgt_def flt_def)

lemma sample_run:
  "st_printed (fst (select_scenes_flood_aware exact_ops no_raster sample_fs (Fin 80) nt (Fin 1)))
     = [\<lparr>sl_selected = True, sl_base = ''s1'', sl_cloud = Fin 30, sl_water = Fin 0,
         sl_clear = Fin 0, sl_reason = ''low_cloud''\<rparr>,
        \<lparr>sl_selected = False, sl_base = ''s2'', sl_cloud = Fin 95, sl_water = Fin 0,
         sl_clear = Fin 0, sl_reason = ''high_cloud_no_water''\<rparr>]"
  by (simp add: select_scenes_flood_aware_def sample_files flood_loop_Cons sample_step1
        sample_step2 del: flood_loop.simps(2))

lemma quarter_water_detect:
  "detect_water_extent exact_ops quarter_water nan_fs t u nt
     = Inr \<lparr>wi_water_pct = Fin 25, wi_clear_pct = Fin 100, wi_water_pixels = 1,
            wi_clear_pixels = 4, wi_total_pixels = 4\<rparr>"
  by (simp add: detect_water_extent_def try_block_def ebind_def quarter_water_def nan_fs_def
        store_counts_def exact_ops_def lift2_def default_result_def Let_def)

lemma nan_step:
  "snd (flood_step exact_ops quarter_water nan_fs (Fin 80) nt (Fin 1) ''s3_metadata.json'' st) = None
   \<and> st_printed (fst (flood_step exact_ops quarter_water nan_fs (Fin 80) nt (Fin 1)
                        ''s3_metadata.json'' st))
       = st_printed st @
           [\<lparr>sl_selected = True, sl_base = ''s3'', sl_cloud = NaN, sl_water = Fin 25,
             sl_clear = Fin 100, sl_reason = ''high_cloud_water''\<rparr>]"
proof -
  have j: "fs_json nan_fs n = Some s3_metadata" and e: "fs_exists nan_fs n" for n
    by (simp_all add: nan_fs_def)
  have sel: "selection
       (f_mul exact_ops (opt_default (p_cloud_cover (get_props s3_metadata)) (Fin 1)) (Fin 100))
       (Fin 80)
       (wi_water_pct \<lparr>wi_water_pct = Fin 25, wi_clear_pct = Fin 100, wi_water_pixels = 1,
            wi_clear_pixels = 4, wi_total_pixels = 4\<rparr>) (Fin 1) s0
     = (True, ''high_cloud_water'',
        s0\<lparr>high_cloud_water_accept := high_cloud_water_accept s0 + 1\<rparr>)" for s0
    by (simp add: sample_cloud selection_def fge_def)
  from flood_step_accept_stac
    [where data = s3_metadata and stac = s3_metadata
       and upd = "\<lambda>s0. s0\<lparr>high_cloud_water_accept := high_cloud_water_accept s0 + 1\<rparr>"
       and reason = "''high_cloud_water''" and f = "''s3_metadata.json''" and fs = nan_fs
       and ops = exact_ops and lib = quarter_water and cm = "Fin 80" and mw = "Fin 1"
       and nt = nt and st = st,
     OF j quarter_water_detect sel e j]
  show ?thesis
    by (simp add: sample_base sample_cloud)
qed

lemma nan_run:
  "st_printed (fst (select_scenes_flood_aware exact_ops quarter_water nan_fs (Fin 80) nt (Fin 1)))
     = [\<lparr>sl_selected = True, sl_base = ''s3'', sl_cloud = NaN, sl_water = Fin 25,
         sl_clear = Fin 100, sl_reason = ''high_cloud_water''\<rparr>]"
  by (simp add: select_scenes_flood_aware_def nan_fs_def [of ] endswith_def metadata_suffix_def
        suffix_to_prefix flood_loop_Cons nan_step [unfolded nan_fs_def] del: flood_loop.simps(2))

lemma not_fle_iff_fgt: "a \<noteq> NaN \<Longrightarrow> b \<noteq> NaN \<Longrightarrow> (\<not> fle a b) = fgt a b"
  by (cases a; cases b) (auto simp: fle_def fgt_def flt_def)

subsection \<open>The claims on the flood-aware selection\<close>

text \<open>
  Claim C1, as amended. In every run of \<open>select_scenes_flood_aware\<close>, every scene that
  got a verdict is accepted if and only if its cloud cover percentage is at most
  \<open>cloud_max\<close>, or its cloud cover percentage is not at most \<open>cloud_max\<close> and its detected
  water percentage is at least \<open>min_water_pct\<close>; every other scene is rejected. When
  neither the cloud cover percentage nor \<open>cloud_max\<close> is NaN, not at most \<open>cloud_max\<close>
  is the same as above \<open>cloud_max\<close>. The counters \<open>accepted\<close> and \<open>rejected\<close> of the
  statistics count exactly the scenes accepted and rejected. The cloud cover percentage
  is the product as the machine computes it.
\<close>

theorem flood_acceptance_iff:
  "(\<forall>l \<in> set (st_printed (fst (select_scenes_flood_aware ops lib fs cloud_max nir_threshold
                                  min_water_pct))).
      (sl_selected l \<longleftrightarrow>
         (fle (sl_cloud l) cloud_max
          \<or> (\<not> fle (sl_cloud l) cloud_max \<and> fge (sl_water l) min_water_pct)))
      \<and> (sl_cloud l \<noteq> NaN \<and> cloud_max \<noteq> NaN \<longrightarrow>
           (sl_selected l \<longleftrightarrow>
              (fle (sl_cloud l) cloud_max
               \<or> (fgt (sl_cloud l) cloud_max \<and> fge (sl_water l) min_water_pct)))))
   \<and> accepted (st_stats (fst (select_scenes_flood_aware ops lib fs cloud_max nir_threshold
                                 min_water_pct)))
       = length (filter sl_selected
           (st_printed (fst (select_scenes_flood_aware ops lib fs cloud_max nir_threshold
                               min_water_pct))))
   \<and> rejected (st_stats (fst (select_scenes_flood_aware ops lib fs cloud_max nir_threshold
                                 min_water_pct)))
       = length (filter (\<lambda>l. \<not> sl_selected l)
           (st_printed (fst (select_scenes_flood_aware ops lib fs cloud_max nir_threshold
                               min_water_pct))))"
  using flood_inv_run [of cloud_max min_water_pct ops lib fs nir_threshold] not_fle_iff_fgt
  unfolding flood_inv_def line_ok_def by auto

theorem flood_acceptance_iff_witness:
  "map (\<lambda>l. (sl_base l, sl_cloud l, sl_water l, sl_selected l))
       (st_printed (fst (select_scenes_flood_aware exact_ops no_raster sample_fs (Fin 80) 1000
                           (Fin 1))))
     = [(''s1'', Fin 30, Fin 0, True), (''s2'', Fin 95, Fin 0, False)]
   \<and> accepted (st_stats (fst (select_scenes_flood_aware exact_ops no_raster sample_fs (Fin 80)
                                 1000 (Fin 1)))) = 1
   \<and> rejected (st_stats (fst (select_scenes_flood_aware exact_ops no_raster sample_fs (Fin 80)
                                 1000 (Fin 1)))) = 1"
  using flood_acceptance_iff [of exact_ops no_raster sample_fs "Fin 80" 1000 "Fin 1"]
  by (simp add: sample_run)

text \<open>
  The claim as first stated fails on a scene whose metadata give NaN as cloud cover: with
  a quarter of its clear pixels water the scene is accepted, although its cloud cover
  percentage is neither at most \<open>cloud_max\<close> nor above it.
\<close>

theorem flood_acceptance_nan:
  "st_printed (fst (select_scenes_flood_aware exact_ops quarter_water nan_fs (Fin 80) 1000 (Fin 1)))
     = [\<lparr>sl_selected = True, sl_base = ''s3'', sl_cloud = NaN, sl_water = Fin 25,
         sl_clear = Fin 100, sl_reason = ''high_cloud_water''\<rparr>]
   \<and> \<not> (fle NaN (Fin 80) \<or> (fgt NaN (Fin 80) \<and> fge (Fin 25) (Fin 1)))"
  by (simp add: nan_run fgt_def flt_def)

text \<open>
  Claim C8. \<open>detect_water_extent\<close> always returns a result, never an exception. When the
  scene TIFF or the UDM2 file is missing or cannot be opened, the result is the zeroed
  default. Hence, when \<open>min_water_pct\<close> is positive, an iteration on a scene whose
  cloud cover percentage is above \<open>cloud_max\<close> and whose imagery is unavailable rejects
  the scene: the verdict printed is a rejection for want of water, the counter
  \<open>rejected\<close> grows by one and no shape is written.
\<close>

theorem detect_water_extent_never_raises:
  "(\<exists>r. detect_water_extent ops lib fs tif_path udm2_path nir_threshold = Inr r)
   \<and> (unavailable lib fs tif_path \<or> unavailable lib fs udm2_path \<longrightarrow>
        detect_water_extent ops lib fs tif_path udm2_path nir_threshold = Inr default_result)
   \<and> wi_water_pct default_result = Fin 0 \<and> wi_clear_pct default_result = Fin 0
   \<and> wi_water_pixels default_result = 0 \<and> wi_clear_pixels default_result = 0
   \<and> wi_total_pixels default_result = 0
   \<and> (fs_json fs f = Some data
        \<and> fgt (f_mul ops (opt_default (p_cloud_cover (get_props data)) (Fin 1)) (Fin 100)) cloud_max
        \<and> fgt min_water_pct (Fin 0)
        \<and> (unavailable lib fs (py_replace metadata_suffix [] f @ tif_suffix)
           \<or> unavailable lib fs (py_replace metadata_suffix [] f @ udm2_suffix)) \<longrightarrow>
        (\<exists>st' l. flood_step ops lib fs cloud_max nir_threshold min_water_pct f st = (st', None)
           \<and> st_printed st' = st_printed st @ [l]
           \<and> \<not> sl_selected l \<and> sl_reason l = ''high_cloud_no_water''
           \<and> st_shapes st' = st_shapes st
           \<and> accepted (st_stats st') = accepted (st_stats st)
           \<and> rejected (st_stats st') = rejected (st_stats st) + 1))"
proof (intro conjI impI)
  show "\<exists>r. detect_water_extent ops lib fs tif_path udm2_path nir_threshold = Inr r"
    by (rule detect_water_extent_returns)
next
  assume "unavailable lib fs tif_path \<or> unavailable lib fs udm2_path"
  then show "detect_water_extent ops lib fs tif_path udm2_path nir_threshold = Inr default_result"
    by (rule detect_water_extent_default)
next
  assume a: "fs_json fs f = Some data
        \<and> fgt (f_mul ops (opt_default (p_cloud_cover (get_props data)) (Fin 1)) (Fin 100)) cloud_max
        \<and> fgt min_water_pct (Fin 0)
        \<and> (unavailable lib fs (py_replace metadata_suffix [] f @ tif_suffix)
           \<or> unavailable lib fs (py_replace metadata_suffix [] f @ udm2_suffix))"
  show "\<exists>st' l. flood_step ops lib fs cloud_max nir_threshold min_water_pct f st = (st', None)
           \<and> st_printed st' = st_printed st @ [l]
           \<and> \<not> sl_selected l \<and> sl_reason l = ''high_cloud_no_water''
           \<and> st_shapes st' = st_shapes st
           \<and> accepted (st_stats st') = accepted (st_stats st)
           \<and> rejected (st_stats st') = rejected (st_stats st) + 1"
    by (subst flood_step_missing_imagery [where data = data]) (use a in simp_all)
qed (simp_all add: default_result_def)

theorem detect_water_extent_never_raises_witness:
  "fs_json sample_fs ''s2_metadata.json'' = Some s2_metadata
   \<and> fgt (f_mul exact_ops (opt_default (p_cloud_cover (get_props s2_metadata)) (Fin 1)) (Fin 100))
        (Fin 80)
   \<and> fgt (Fin 1) (Fin 0)
   \<and> unavailable no_raster sample_fs
        (py_replace metadata_suffix [] ''s2_metadata.json'' @ tif_suffix)
   \<and> detect_water_extent exact_ops no_raster sample_fs
        (py_replace metadata_suffix [] ''s2_metadata.json'' @ tif_suffix)
        (py_replace metadata_suffix [] ''s2_metadata.json'' @ udm2_suffix) 1000
       = Inr default_result
   \<and> (\<exists>st' l. flood_step exact_ops no_raster sample_fs (Fin 80) 1000 (Fin 1) ''s2_metadata.json''
                 \<lparr>st_stats = initial_stats, st_shapes = [], st_printed = []\<rparr> = (st', None)
           \<and> st_printed st' = [] @ [l]
           \<and> \<not> sl_selected l \<and> sl_reason l = ''high_cloud_no_water''
           \<and> st_shapes st' = []
           \<and> accepted (st_stats st') = accepted initial_stats
           \<and> rejected (st_stats st') = rejected initial_stats + 1)"
proof -
  have h: "fs_json sample_fs ''s2_metadata.json'' = Some s2_metadata
   \<and> fgt (f_mul exact_ops (opt_default (p_cloud_cover (get_props s2_metadata)) (Fin 1)) (Fin 100))
        (Fin 80)
   \<and> fgt (Fin 1) (Fin 0)
   \<and> unavailable no_raster sample_fs
        (py_replace metadata_suffix [] ''s2_metadata.json'' @ tif_suffix)"
    by (simp add: sample_json_files sample_cloud sample_unavailable fgt_def flt_def)
  from h detect_water_extent_never_raises
      [of exact_ops no_raster sample_fs
          "py_replace metadata_suffix [] ''s2_metadata.json'' @ tif_suffix"
          "py_replace metadata_suffix [] ''s2_metadata.json'' @ udm2_suffix" 1000
          "''s2_metadata.json''" s2_metadata "Fin 80" "Fin 1"
          "\<lparr>st_stats = initial_stats, st_shapes = [], st_printed = []\<rparr>"]
  show ?thesis by simp
qed

section \<open>Properties of select_scenes_to_shp.py\<close>














end
